theory Spec2Isabelle
  imports Complex_Main "HOL-Library.Sublist"
begin

section \<open>Python values used by the application\<close>

text \<open>
  A Python \<open>str\<close> is a sequence of Unicode code points and \<open>len\<close> counts code points,
  so a string is modelled as a list of code-point numbers. The literals of the source are
  written with \<open>str\<close>, which maps an ASCII literal to its code points; the few
  non-ASCII characters of the source (emoji in labels) are written as numbers.
\<close>

type_synonym pystr = "nat list"

definition str :: "string \<Rightarrow> pystr" where
  "str s = map of_char s"

text \<open>
  The characters that \<open>str.strip()\<close> and \<open>str.split()\<close> (both without argument) treat
  as whitespace: the code points for which CPython's Unicode database answers
  \<open>isspace\<close>.
\<close>

definition isspace :: "nat \<Rightarrow> bool" where
  "isspace c \<longleftrightarrow>
     c \<in> set [9, 10, 11, 12, 13, 28, 29, 30, 31, 32, 133, 160, 5760,
               8232, 8233, 8239, 8287, 12288]
     \<or> (8192 \<le> c \<and> c \<le> 8202)"

text \<open>\<open>s.strip()\<close>: leading and trailing whitespace removed.\<close>

definition strip :: "pystr \<Rightarrow> pystr" where
  "strip s = rev (dropWhile isspace (rev (dropWhile isspace s)))"

text \<open>
  \<open>s.split()\<close>: the maximal runs of non-whitespace characters, in order. The first
  argument of \<open>split_from\<close> is the token being read.
\<close>

fun split_from :: "pystr \<Rightarrow> pystr \<Rightarrow> pystr list" where
  "split_from cur [] = (if cur = [] then [] else [cur])"
| "split_from cur (c # cs) =
     (if isspace c
      then (if cur = [] then split_from [] cs else cur # split_from [] cs)
      else split_from (cur @ [c]) cs)"

definition split :: "pystr \<Rightarrow> pystr list" where
  "split s = split_from [] s"

text \<open>
  \<open>s.split(sep)[0]\<close> for a one-character separator: the part of \<open>s\<close> before the first
  occurrence of the separator, all of \<open>s\<close> when there is none. The list that
  \<open>split(sep)\<close> returns is never empty, so the index \<open>[0]\<close> cannot fail.
\<close>

definition split_first :: "nat \<Rightarrow> pystr \<Rightarrow> pystr" where
  "split_first sep s = takeWhile (\<lambda>c. c \<noteq> sep) s"

text \<open>\<open>sep.join(xs)\<close>.\<close>

fun join :: "pystr \<Rightarrow> pystr list \<Rightarrow> pystr" where
  "join sep [] = []"
| "join sep [x] = x"
| "join sep (x # y # ys) = x @ sep @ join sep (y # ys)"

text \<open>\<open>str(n)\<close> for an integer: decimal digits, with a minus sign when negative.\<close>

fun str_of_nat :: "nat \<Rightarrow> pystr" where
  "str_of_nat n = (if n < 10 then [48 + n] else str_of_nat (n div 10) @ [48 + n mod 10])"

definition str_of_int :: "int \<Rightarrow> pystr" where
  "str_of_int i = (if i < 0 then 45 # str_of_nat (nat (- i)) else str_of_nat (nat i))"

text \<open>
  An exception that \<open>except Exception\<close> catches, carrying the text that \<open>str(e)\<close>
  gives. The outcome of a call is \<open>Inr v\<close> when it returns \<open>v\<close> and \<open>Inl e\<close> when it
  raises \<open>e\<close>.
\<close>

datatype exn = Exception pystr

text \<open>
  What the application does to the outside, in order: the Streamlit calls that show
  something, and the call of the speech engine. Pure layout calls (\<open>st.columns\<close>,
  \<open>st.spinner\<close>, the \<open>with\<close> blocks) show no content and are not recorded.
\<close>

datatype effect =
    StError pystr
  | StInfo pystr
  | StSubheader pystr
  | StMarkdown pystr
  | StAudio "nat list" pystr
  | StDownloadButton pystr "nat list" pystr pystr
  | GTTS pystr pystr bool

section \<open>EchoVerseConfig\<close>

record EchoVerseConfig =
  WATSON_API_KEY :: pystr
  WATSON_URL :: pystr
  WATSONX_PROJECT_ID :: pystr

definition EchoVerseConfig_init :: EchoVerseConfig where
  "EchoVerseConfig_init =
     \<lparr>WATSON_API_KEY = [], WATSON_URL = [], WATSONX_PROJECT_ID = []\<rparr>"

text \<open>
  \<open>validate_credentials\<close>: the names of the empty credentials are collected in the
  order of the source; when there is one, an error naming them and a hint are shown
  and the answer is \<open>False\<close>.
\<close>

definition missing_credentials :: "EchoVerseConfig \<Rightarrow> pystr list" where
  "missing_credentials self =
     (if WATSON_API_KEY self = [] then [str ''WATSON_API_KEY''] else []) @
     (if WATSON_URL self = [] then [str ''WATSON_URL''] else []) @
     (if WATSONX_PROJECT_ID self = [] then [str ''WATSONX_PROJECT_ID''] else [])"

definition validate_credentials :: "EchoVerseConfig \<Rightarrow> effect list \<times> bool" where
  "validate_credentials self =
     (let missing = missing_credentials self in
      if missing \<noteq> []
      then ([StError (str ''Missing credentials: '' @ join (str '', '') missing),
             StInfo (str ''Please set your IBM Watson credentials in the configuration section'')],
            False)
      else ([], True))"

section \<open>TextRewriter\<close>

text \<open>
  The table \<open>tone_prompts\<close> that \<open>__init__\<close> builds is read by no method and is left
  out. The tone is a string, as in the source, so that a tone outside the three names
  is an input of the model.

  \<open>_simulate_rewrite\<close>: three tone names are compared in turn, any other tone falls
  through to \<open>return text\<close>. The function has no \<open>raise\<close> and calls nothing that
  raises, so every branch is a return.
\<close>

definition simulate_rewrite :: "pystr \<Rightarrow> pystr \<Rightarrow> exn + pystr" where
  "simulate_rewrite text tone =
     (if tone = str ''Neutral''
      then Inr (str ''In a clear and professional manner: '' @ text)
      else if tone = str ''Suspenseful''
      then Inr (str ''With building tension and intrigue: '' @ text @
                str ''... What happens next will surprise you.'')
      else if tone = str ''Inspiring''
      then Inr (str ''With great determination and hope: '' @ text @
                str '' This is just the beginning of an incredible journey.'')
      else Inr text)"

text \<open>
  \<open>rewrite_text\<close>: the credential check comes first and returns the text as it is
  when it fails. Otherwise the body of the \<open>try\<close> runs; an exception it raises is
  caught, reported, and the text is returned as it is. \<open>rewrite_text_with\<close> takes the
  method called inside the \<open>try\<close> as an argument, so that the handler is part of the
  model; \<open>rewrite_text\<close> is the method of the source, which calls
  \<open>_simulate_rewrite\<close> there.
\<close>

definition rewrite_text_with ::
  "(pystr \<Rightarrow> pystr \<Rightarrow> exn + pystr) \<Rightarrow> EchoVerseConfig \<Rightarrow> pystr \<Rightarrow> pystr
     \<Rightarrow> effect list \<times> (exn + pystr)" where
  "rewrite_text_with body config text tone =
     (case validate_credentials config of
        (es, False) \<Rightarrow> (es, Inr text)
      | (es, True) \<Rightarrow>
          (case body text tone of
             Inr rewritten \<Rightarrow> (es, Inr rewritten)
           | Inl (Exception msg) \<Rightarrow>
               (es @ [StError (str ''Error rewriting text: '' @ msg)], Inr text)))"

definition rewrite_text ::
  "EchoVerseConfig \<Rightarrow> pystr \<Rightarrow> pystr \<Rightarrow> effect list \<times> (exn + pystr)" where
  "rewrite_text = rewrite_text_with simulate_rewrite"

section \<open>AudioGenerator\<close>

text \<open>The voice table of \<open>__init__\<close>, a dictionary from voice name to locale.\<close>

definition voices :: "pystr \<rightharpoonup> pystr" where
  "voices = map_of
     [(str ''Lisa'', str ''en-us''),
      (str ''Michael'', str ''en-uk''),
      (str ''Allison'', str ''en-au'')]"

text \<open>\<open>d.get(k, default)\<close>.\<close>

definition dict_get :: "('k \<rightharpoonup> 'v) \<Rightarrow> 'k \<Rightarrow> 'v \<Rightarrow> 'v" where
  "dict_get d k dflt = (case d k of None \<Rightarrow> dflt | Some v \<Rightarrow> v)"

text \<open>
  The speech engine is outside the program. Inside one \<open>try\<close> block
  \<open>generate_audio\<close> builds the \<open>gTTS\<close> object from the text, the language and
  \<open>slow=False\<close>, creates a temporary file with suffix \<open>.mp3\<close> and saves the speech
  into it. The engine is an argument of the model: given text, language and the slow
  flag it answers the name of the file written, or the exception that one of the three
  steps raised.
\<close>

type_synonym engine = "pystr \<Rightarrow> pystr \<Rightarrow> bool \<Rightarrow> exn + pystr"

text \<open>
  \<open>generate_audio\<close>: the language is the part of the locale before the first
  hyphen (code point 45). Every exception of the engine is caught and reported, and
  \<open>None\<close> is returned. The default \<open>voice="Lisa"\<close> of the signature plays no part:
  the one caller passes the voice.
\<close>

definition generate_audio ::
  "engine \<Rightarrow> pystr \<Rightarrow> pystr \<Rightarrow> effect list \<times> (exn + pystr option)" where
  "generate_audio synth text voice =
     (let lang = dict_get voices voice (str ''en-us'');
          code = split_first 45 lang
      in case synth text code False of
           Inr name \<Rightarrow> ([GTTS text code False], Inr (Some name))
         | Inl (Exception msg) \<Rightarrow>
             ([GTTS text code False, StError (str ''Error generating audio: '' @ msg)],
              Inr None))"

text \<open>
  The files of the machine are a map from path to content: \<open>os.path.exists\<close> asks
  whether the path is in its domain, \<open>open(...).read()\<close> gives the content. A value
  that may be \<open>None\<close> is an option; \<open>if audio_file\<close> holds for a string that is not
  empty.
\<close>

type_synonym files = "pystr \<rightharpoonup> nat list"

definition create_audio_player :: "files \<Rightarrow> pystr option \<Rightarrow> effect list" where
  "create_audio_player fs audio_file =
     (case audio_file of
        None \<Rightarrow> []
      | Some f \<Rightarrow>
          if f = [] then []
          else (case fs f of
                  None \<Rightarrow> []
                | Some content \<Rightarrow> [StAudio content (str ''audio/mp3'')]))"

text \<open>
  \<open>create_download_button\<close>: the label starts with the emoji U+1F4E5. The answer
  of \<open>st.download_button\<close> (whether it was clicked) is the argument \<open>clicked\<close>.
\<close>

definition create_download_button ::
  "files \<Rightarrow> bool \<Rightarrow> pystr option \<Rightarrow> pystr \<Rightarrow> effect list \<times> bool" where
  "create_download_button fs clicked audio_file filename =
     (case audio_file of
        None \<Rightarrow> ([], False)
      | Some f \<Rightarrow>
          if f = [] then ([], False)
          else (case fs f of
                  None \<Rightarrow> ([], False)
                | Some content \<Rightarrow>
                    ([StDownloadButton (128229 # str '' Download Audio'') content filename
                        (str ''audio/mp3'')],
                     clicked)))"

section \<open>EchoVerseApp\<close>

text \<open>
  \<open>render_processing_section\<close>: \<open>button\<close> is the answer of \<open>st.button\<close>. The
  method has no \<open>try\<close>, so an exception of either call would leave it.
\<close>

definition render_processing_section ::
  "engine \<Rightarrow> bool \<Rightarrow> EchoVerseConfig \<Rightarrow> pystr \<Rightarrow> pystr \<Rightarrow> pystr
     \<Rightarrow> effect list \<times> (exn + pystr option \<times> pystr option)" where
  "render_processing_section synth button config text_content tone voice =
     (if strip text_content = []
      then ([StInfo (str ''Please enter some text to continue.'')], Inr (None, None))
      else if button
      then (case rewrite_text config text_content tone of
              (es1, Inl e) \<Rightarrow> (es1, Inl e)
            | (es1, Inr rewritten_text) \<Rightarrow>
                (case generate_audio synth rewritten_text voice of
                   (es2, Inl e) \<Rightarrow> (es1 @ es2, Inl e)
                 | (es2, Inr audio_file) \<Rightarrow>
                     (es1 @ es2, Inr (Some rewritten_text, audio_file))))
      else ([], Inr (None, None)))"

text \<open>
  The statistics line of \<open>render_audio_section\<close>: the length, the number of tokens
  of \<open>split()\<close> and the length divided by 200 with \<open>//\<close>, each printed in decimal.
  The line starts with the emoji U+1F4CA.
\<close>

definition audio_statistics :: "pystr \<Rightarrow> pystr" where
  "audio_statistics rewritten_text =
     128202 # str '' **Audio Statistics**: '' @
     str_of_int (int (length rewritten_text)) @ str '' characters, ~'' @
     str_of_int (int (length (split rewritten_text))) @ str '' words, ~'' @
     str_of_int (int (length rewritten_text) div 200) @
     str '' minutes estimated duration''"

text \<open>
  \<open>render_audio_section\<close>: \<open>now\<close> is \<open>int(time.time())\<close>. The subheader starts
  with the emoji U+1F3B5.
\<close>

definition render_audio_section ::
  "files \<Rightarrow> bool \<Rightarrow> int \<Rightarrow> pystr option \<Rightarrow> pystr \<Rightarrow> effect list" where
  "render_audio_section fs clicked now audio_file rewritten_text =
     (if audio_file \<noteq> None \<and> audio_file \<noteq> Some []
      then [StSubheader (127925 # str '' Generated Audiobook''),
            StMarkdown (str ''**Listen to your audiobook:**'')] @
           create_audio_player fs audio_file @
           [StMarkdown (str ''**Download:**'')] @
           fst (create_download_button fs clicked audio_file
                  (str ''audiobook_'' @ str_of_int now @ str ''.mp3'')) @
           [StInfo (audio_statistics rewritten_text)]
      else [])"

section \<open>The statistics, said without the code\<close>

text \<open>
  The number of whitespace-separated words of a text, said without \<open>split\<close>: the
  number of places where a character that is not whitespace stands at the start of the
  text or right after a whitespace character. Each such place starts one word.
\<close>

definition token_count :: "pystr \<Rightarrow> nat" where
  "token_count S =
     length (filter (\<lambda>(p, c). isspace p \<and> \<not> isspace c) (zip (32 # S) S))"

text \<open>
  A decimal numeral is a string of digits that is not empty; its value is read from the
  left, digit by digit.
\<close>

definition is_decimal :: "pystr \<Rightarrow> bool" where
  "is_decimal ds \<longleftrightarrow> ds \<noteq> [] \<and> list_all (\<lambda>d. 48 \<le> d \<and> d \<le> 57) ds"

definition decimal_value :: "pystr \<Rightarrow> nat" where
  "decimal_value ds = foldl (\<lambda>a d. 10 * a + (d - 48)) 0 ds"

section \<open>Inputs used in the examples\<close>

text \<open>An engine that always succeeds, and one that always raises.\<close>

definition engine_ok :: engine where
  "engine_ok text lang slow = Inr (str ''/tmp/tmpk3x9.mp3'')"

definition engine_down :: engine where
  "engine_down text lang slow = Inl (Exception (str ''Connection error''))"

definition config_set :: EchoVerseConfig where
  "config_set =
     \<lparr>WATSON_API_KEY = str ''key'', WATSON_URL = str ''https://example.test'',
      WATSONX_PROJECT_ID = str ''project''\<rparr>"

definition body_raising :: "pystr \<Rightarrow> pystr \<Rightarrow> exn + pystr" where
  "body_raising text tone = Inl (Exception (str ''backend unavailable''))"

definition config_other :: EchoVerseConfig where
  "config_other =
     \<lparr>WATSON_API_KEY = str ''k2'', WATSON_URL = str ''https://other.test'',
      WATSONX_PROJECT_ID = str ''p2''\<rparr>"

text \<open>
  The files after a successful synthesis: the temporary file holds the audio. A text of
  1000 characters in 150 words: 100 times \<open>stream\<close>, 49 times \<open>audio\<close>, each
  followed by a space, then \<open>speech\<close>.
\<close>

definition files_sample :: files where
  "files_sample = [str ''/tmp/tmpk3x9.mp3'' \<mapsto> [73, 68, 51]]"

definition sample_text_1000 :: pystr where
  "sample_text_1000 =
     concat (replicate 100 (str ''stream '')) @ concat (replicate 49 (str ''audio '')) @
     str ''speech''"

section \<open>Evaluation and the Python helpers\<close>

text \<open>The defining equations, for evaluating the model at a given input.\<close>

declare str_of_nat.simps [simp del]

lemmas eval_defs = str_def strip_def isspace_def split_def split_first_def
  str_of_nat.simps str_of_int_def
  EchoVerseConfig_init_def missing_credentials_def validate_credentials_def
  simulate_rewrite_def rewrite_text_with_def rewrite_text_def voices_def dict_get_def
  generate_audio_def create_audio_player_def create_download_button_def
  render_processing_section_def audio_statistics_def render_audio_section_def
  engine_ok_def engine_down_def config_set_def config_other_def body_raising_def Let_def

text \<open>\<open>strip\<close> leaves nothing exactly when every character is whitespace.\<close>

lemma strip_empty_iff: "strip s = [] \<longleftrightarrow> (\<forall>c\<in>set s. isspace c)"
proof
  assume "strip s = []"
  then have all: "\<forall>c\<in>set (dropWhile isspace s). isspace c"
    by (simp add: strip_def)
  have "dropWhile isspace s = []"
  proof (rule ccontr)
    assume ne: "dropWhile isspace s \<noteq> []"
    then have "\<not> isspace (hd (dropWhile isspace s))" by (rule hd_dropWhile)
    moreover have "hd (dropWhile isspace s) \<in> set (dropWhile isspace s)"
      using ne by simp
    ultimately show False using all by blast
  qed
  then show "\<forall>c\<in>set s. isspace c" by simp
next
  assume "\<forall>c\<in>set s. isspace c"
  then have "dropWhile isspace s = []" by simp
  then show "strip s = []" by (simp only: strip_def rev.simps dropWhile.simps)
qed

section \<open>Facts about the rewriter\<close>

lemma tone_names_distinct:
  "str ''Neutral'' \<noteq> str ''Suspenseful''"
  "str ''Neutral'' \<noteq> str ''Inspiring''"
  "str ''Suspenseful'' \<noteq> str ''Inspiring''"
  by (simp_all add: str_def)

lemma simulate_rewrite_returns: "\<exists>r. simulate_rewrite text tone = Inr r"
  by (simp add: simulate_rewrite_def)

lemma simulate_rewrite_length:
  "simulate_rewrite text tone = Inr r \<Longrightarrow> length text \<le> length r"
  by (auto simp: simulate_rewrite_def split: if_splits)

text \<open>The text that \<open>rewrite_text\<close> returns, by the outcome of the credential check.\<close>

lemma rewrite_text_cases:
  "snd (rewrite_text config text tone) =
     (if snd (validate_credentials config) then simulate_rewrite text tone else Inr text)"
  by (auto simp: rewrite_text_def rewrite_text_with_def simulate_rewrite_def
           split: prod.splits bool.splits)

text \<open>
  Claim C1. For a text \<open>T\<close> that is not empty and each of the three tones,
  \<open>_simulate_rewrite\<close> and \<open>rewrite_text\<close> return a text that is not empty and at
  least as long as \<open>T\<close>. The result is a function of the text, the tone and the
  credential state only: two configurations on which the credential check gives the
  same answer give the same text.
\<close>

theorem rewrite_nonempty_longer_deterministic:
  assumes "T \<noteq> []"
    and "tone \<in> {str ''Neutral'', str ''Suspenseful'', str ''Inspiring''}"
  shows "(\<exists>r. simulate_rewrite T tone = Inr r \<and> r \<noteq> [] \<and> length T \<le> length r)
       \<and> (\<exists>r. snd (rewrite_text config T tone) = Inr r \<and> r \<noteq> [] \<and> length T \<le> length r)
       \<and> (snd (validate_credentials config) = snd (validate_credentials config') \<longrightarrow>
            snd (rewrite_text config T tone) = snd (rewrite_text config' T tone))"
proof -
  obtain r where r: "simulate_rewrite T tone = Inr r"
    using simulate_rewrite_returns by blast
  have len: "length T \<le> length r"
    using r by (rule simulate_rewrite_length)
  with assms(1) have ne: "r \<noteq> []" by auto
  have sim: "\<exists>r. simulate_rewrite T tone = Inr r \<and> r \<noteq> [] \<and> length T \<le> length r"
    using r len ne by blast
  have rt: "\<exists>r. snd (rewrite_text config T tone) = Inr r \<and> r \<noteq> [] \<and> length T \<le> length r"
    using sim assms(1) by (simp add: rewrite_text_cases)
  have det: "snd (validate_credentials config) = snd (validate_credentials config') \<longrightarrow>
            snd (rewrite_text config T tone) = snd (rewrite_text config' T tone)"
    by (simp add: rewrite_text_cases)
  from sim rt det show ?thesis by blast
qed

theorem rewrite_nonempty_longer_deterministic_witness:
  "str ''Hello'' \<noteq> []
   \<and> str ''Neutral'' \<in> {str ''Neutral'', str ''Suspenseful'', str ''Inspiring''}
   \<and> snd (validate_credentials config_set) = snd (validate_credentials config_other)
   \<and> snd (rewrite_text config_set (str ''Hello'') (str ''Neutral''))
       = snd (rewrite_text config_other (str ''Hello'') (str ''Neutral''))
   \<and> snd (rewrite_text config_set (str ''Hello'') (str ''Neutral''))
       = Inr (str ''In a clear and professional manner: Hello'')"
proof -
  have h1: "str ''Hello'' \<noteq> []" by (simp add: str_def)
  have h2: "str ''Neutral'' \<in> {str ''Neutral'', str ''Suspenseful'', str ''Inspiring''}"
    by simp
  have h3: "snd (validate_credentials config_set) = snd (validate_credentials config_other)"
    by (simp add: eval_defs)
  have v: "snd (rewrite_text config_set (str ''Hello'') (str ''Neutral''))
       = Inr (str ''In a clear and professional manner: Hello'')"
    by (simp add: eval_defs)
  from rewrite_nonempty_longer_deterministic [OF h1 h2, of config_set config_other] h1 h2 h3 v
  show ?thesis by simp
qed

lemma simulate_rewrite_longer:
  assumes "tone \<in> {str ''Neutral'', str ''Suspenseful'', str ''Inspiring''}"
    and "simulate_rewrite text tone = Inr r"
  shows "length text < length r"
  using assms by (auto simp: simulate_rewrite_def str_def split: if_splits)

section \<open>Facts about the narrator and the orchestrator\<close>

text \<open>Every voice, known or not, leads to the language \<open>en\<close>.\<close>

lemma voice_language: "split_first 45 (dict_get voices voice (str ''en-us'')) = str ''en''"
  by (simp add: voices_def dict_get_def split_first_def str_def)

lemma generate_audio_eq:
  "generate_audio synth text voice =
     (case synth text (str ''en'') False of
        Inr name \<Rightarrow> ([GTTS text (str ''en'') False], Inr (Some name))
      | Inl (Exception msg) \<Rightarrow>
          ([GTTS text (str ''en'') False, StError (str ''Error generating audio: '' @ msg)],
           Inr None))"
  unfolding generate_audio_def Let_def voice_language by (rule refl)

lemma rewrite_text_with_returns:
  "\<exists>es r. rewrite_text_with body config text tone = (es, Inr r)"
  by (auto simp: rewrite_text_with_def split: prod.splits bool.splits sum.splits exn.splits)

lemma rewrite_text_no_GTTS: "GTTS t l s \<notin> set (fst (rewrite_text config text tone))"
  by (auto simp: rewrite_text_def rewrite_text_with_def validate_credentials_def Let_def
      simulate_rewrite_def split: prod.splits bool.splits sum.splits exn.splits if_splits)

lemma render_processing_section_run:
  assumes "strip text_content \<noteq> []" and "rewrite_text config text_content tone = (es1, Inr rw)"
  shows "render_processing_section synth True config text_content tone voice =
           (es1 @ fst (generate_audio synth rw voice),
            Inr (Some rw, (case synth rw (str ''en'') False of Inr name \<Rightarrow> Some name | Inl e \<Rightarrow> None)))"
  using assms
  by (auto simp: render_processing_section_def generate_audio_eq split: sum.splits exn.splits)


lemma generate_audio_GTTS:
  "GTTS t l s \<in> set (fst (generate_audio synth text voice))
     \<longleftrightarrow> t = text \<and> l = str ''en'' \<and> s = False"
  by (auto simp: generate_audio_eq split: sum.splits exn.splits)

text \<open>
  A call of the engine in the trace of \<open>render_processing_section\<close> tells that the
  text was not blank and the button was pressed, and fixes the whole outcome.
\<close>

lemma render_processing_section_GTTS:
  assumes run: "render_processing_section synth button config text_content tone voice = (es, res)"
    and call: "GTTS t l s \<in> set es"
  shows "strip text_content \<noteq> [] \<and> button \<and> l = str ''en'' \<and> s = False
       \<and> snd (rewrite_text config text_content tone) = Inr t
       \<and> es = fst (rewrite_text config text_content tone) @ fst (generate_audio synth t voice)
       \<and> res = Inr (Some t, (case synth t (str ''en'') False of
                                 Inr name \<Rightarrow> Some name | Inl e \<Rightarrow> None))"
proof -
  have ne: "strip text_content \<noteq> []"
    using run call by (auto simp: render_processing_section_def)
  have b: button
    using run call ne by (auto simp: render_processing_section_def split: if_splits)
  obtain es1 rw where rw: "rewrite_text config text_content tone = (es1, Inr rw)"
    using rewrite_text_with_returns [of simulate_rewrite config text_content tone]
    by (auto simp: rewrite_text_def)
  have eq: "(es, res) = (es1 @ fst (generate_audio synth rw voice),
            Inr (Some rw, (case synth rw (str ''en'') False of
                             Inr name \<Rightarrow> Some name | Inl e \<Rightarrow> None)))"
    using render_processing_section_run [OF ne rw, of synth voice] run b by simp
  have "GTTS t l s \<notin> set es1"
    using rewrite_text_no_GTTS [of t l s config text_content tone] rw by simp
  with call eq have "GTTS t l s \<in> set (fst (generate_audio synth rw voice))" by auto
  then have "t = rw \<and> l = str ''en'' \<and> s = False" by (simp add: generate_audio_GTTS)
  with ne b rw eq show ?thesis by simp
qed




text \<open>
  Claim C3. For a text that is empty or all whitespace, \<open>render_processing_section\<close>
  returns \<open>(None, None)\<close> and shows one informational message and nothing else,
  whatever the tone, the voice, the button, the credentials and the engine are: neither
  the rewriter nor the narrator takes part.
\<close>

theorem blank_input_short_circuits:
  assumes "\<forall>c\<in>set text_content. isspace c"
  shows "render_processing_section synth button config text_content tone voice =
           ([StInfo (str ''Please enter some text to continue.'')], Inr (None, None))"
  using assms by (simp add: render_processing_section_def strip_empty_iff)


theorem blank_input_short_circuits_witness:
  "isspace 32 \<and> isspace 9 \<and> isspace 10 \<and> isspace 160
   \<and> render_processing_section engine_down True EchoVerseConfig_init
        [32, 9, 10, 160] (str ''Inspiring'') (str ''Michael'')
      = ([StInfo (str ''Please enter some text to continue.'')], Inr (None, None))"
proof -
  have s: "isspace 32 \<and> isspace 9 \<and> isspace 10 \<and> isspace 160"
    by (simp add: isspace_def)
  then have h: "\<forall>c\<in>set [32, 9, 10, 160]. isspace c" by simp
  from blank_input_short_circuits [OF h] s show ?thesis by simp
qed

text \<open>
  Claim C4, as amended. For an input that is not empty, the text given to the speech
  engine is the text that \<open>rewrite_text\<close> returned: when the text is not blank and
  the button is pressed the engine is called with it, and no call of the engine has
  another text. With the credentials set and one of the three tones, \<open>Neutral\<close>
  included, the engine is never called with the original text. With a credential
  missing, what \<open>rewrite_text\<close> returns is the original text, and the engine is called
  with it. The claim as written, that the original text is never narrated, fails with
  the credentials of \<open>__init__\<close>.
\<close>


theorem narration_receives_rewritten_text:
  assumes "text_content \<noteq> []"
    and "render_processing_section synth button config text_content tone voice = (es, res)"
  shows "(strip text_content \<noteq> [] \<and> button \<longrightarrow>
            (\<exists>rw. snd (rewrite_text config text_content tone) = Inr rw
                  \<and> GTTS rw (str ''en'') False \<in> set es))
       \<and> (\<forall>t l s. GTTS t l s \<in> set es \<longrightarrow>
            snd (rewrite_text config text_content tone) = Inr t)
       \<and> (snd (validate_credentials config)
            \<and> tone \<in> {str ''Neutral'', str ''Suspenseful'', str ''Inspiring''} \<longrightarrow>
            (\<forall>l s. GTTS text_content l s \<notin> set es))
       \<and> (\<not> snd (validate_credentials config) \<and> strip text_content \<noteq> [] \<and> button \<longrightarrow>
            snd (rewrite_text config text_content tone) = Inr text_content
            \<and> GTTS text_content (str ''en'') False \<in> set es)"
proof -
  have a: "strip text_content \<noteq> [] \<and> button \<longrightarrow>
            (\<exists>rw. snd (rewrite_text config text_content tone) = Inr rw
                  \<and> GTTS rw (str ''en'') False \<in> set es)"
  proof
    assume sb: "strip text_content \<noteq> [] \<and> button"
    obtain es1 rw where rw: "rewrite_text config text_content tone = (es1, Inr rw)"
      using rewrite_text_with_returns [of simulate_rewrite config text_content tone]
      by (auto simp: rewrite_text_def)
    have "es = es1 @ fst (generate_audio synth rw voice)"
      using render_processing_section_run [of text_content config tone es1 rw synth voice]
        sb rw assms(2) by simp
    then have "GTTS rw (str ''en'') False \<in> set es"
      by (simp add: generate_audio_GTTS)
    with rw show "\<exists>rw. snd (rewrite_text config text_content tone) = Inr rw
                  \<and> GTTS rw (str ''en'') False \<in> set es" by auto
  qed
  have b: "\<forall>t l s. GTTS t l s \<in> set es \<longrightarrow>
            snd (rewrite_text config text_content tone) = Inr t"
    using render_processing_section_GTTS [OF assms(2)] by blast
  have c: "snd (validate_credentials config)
            \<and> tone \<in> {str ''Neutral'', str ''Suspenseful'', str ''Inspiring''} \<longrightarrow>
            (\<forall>l s. GTTS text_content l s \<notin> set es)"
  proof (intro impI allI notI)
    fix l s
    assume ok: "snd (validate_credentials config)
            \<and> tone \<in> {str ''Neutral'', str ''Suspenseful'', str ''Inspiring''}"
      and "GTTS text_content l s \<in> set es"
    with b have "snd (rewrite_text config text_content tone) = Inr text_content" by blast
    with ok have "simulate_rewrite text_content tone = Inr text_content"
      by (simp add: rewrite_text_cases)
    with ok have "length text_content < length text_content"
      using simulate_rewrite_longer by blast
    then show False by simp
  qed
  have d: "\<not> snd (validate_credentials config) \<and> strip text_content \<noteq> [] \<and> button \<longrightarrow>
            snd (rewrite_text config text_content tone) = Inr text_content
            \<and> GTTS text_content (str ''en'') False \<in> set es"
  proof
    assume m: "\<not> snd (validate_credentials config) \<and> strip text_content \<noteq> [] \<and> button"
    then have r: "snd (rewrite_text config text_content tone) = Inr text_content"
      by (simp add: rewrite_text_cases)
    from a m obtain rw where "snd (rewrite_text config text_content tone) = Inr rw"
      and "GTTS rw (str ''en'') False \<in> set es" by blast
    with r show "snd (rewrite_text config text_content tone) = Inr text_content
            \<and> GTTS text_content (str ''en'') False \<in> set es" by simp
  qed
  from a b c d show ?thesis by blast
qed


theorem narration_receives_rewritten_text_witness:
  "str ''Once upon a time'' \<noteq> []
   \<and> strip (str ''Once upon a time'') \<noteq> []
   \<and> snd (validate_credentials config_set)
   \<and> str ''Neutral'' \<in> {str ''Neutral'', str ''Suspenseful'', str ''Inspiring''}
   \<and> render_processing_section engine_ok True config_set
         (str ''Once upon a time'') (str ''Neutral'') (str ''Allison'')
       = ([GTTS (str ''In a clear and professional manner: Once upon a time'') (str ''en'') False],
          Inr (Some (str ''In a clear and professional manner: Once upon a time''),
               Some (str ''/tmp/tmpk3x9.mp3'')))
   \<and> snd (rewrite_text config_set (str ''Once upon a time'') (str ''Neutral''))
       = Inr (str ''In a clear and professional manner: Once upon a time'')
   \<and> GTTS (str ''Once upon a time'') (str ''en'') False
       \<notin> set [GTTS (str ''In a clear and professional manner: Once upon a time'') (str ''en'') False]
   \<and> \<not> snd (validate_credentials EchoVerseConfig_init)
   \<and> snd (rewrite_text EchoVerseConfig_init (str ''Once upon a time'') (str ''Neutral''))
       = Inr (str ''Once upon a time'')
   \<and> GTTS (str ''Once upon a time'') (str ''en'') False
       \<in> set (fst (render_processing_section engine_ok True EchoVerseConfig_init
                       (str ''Once upon a time'') (str ''Neutral'') (str ''Allison'')))"
proof -
  let ?rw = "str ''In a clear and professional manner: Once upon a time''"
  let ?run0 = "render_processing_section engine_ok True EchoVerseConfig_init
                 (str ''Once upon a time'') (str ''Neutral'') (str ''Allison'')"
  have h1: "str ''Once upon a time'' \<noteq> []" by (simp add: str_def)
  have h2: "render_processing_section engine_ok True config_set
         (str ''Once upon a time'') (str ''Neutral'') (str ''Allison'')
       = ([GTTS ?rw (str ''en'') False], Inr (Some ?rw, Some (str ''/tmp/tmpk3x9.mp3'')))"
    by (simp add: eval_defs)
  have h3: "strip (str ''Once upon a time'') \<noteq> []" by (simp add: eval_defs)
  have h4: "snd (validate_credentials config_set)" by (simp add: eval_defs)
  have h5: "str ''Neutral'' \<in> {str ''Neutral'', str ''Suspenseful'', str ''Inspiring''}"
    by simp
  have h6: "str ''Once upon a time'' \<noteq> ?rw" by (simp add: str_def)
  have g1: "?run0 = (fst ?run0, snd ?run0)" by simp
  have g2: "\<not> snd (validate_credentials EchoVerseConfig_init)" by (simp add: eval_defs)
  note set_case = narration_receives_rewritten_text
         [where synth = engine_ok and button = True and config = config_set
            and tone = "str ''Neutral''" and voice = "str ''Allison''", OF h1 h2]
  note init_case = narration_receives_rewritten_text
         [where synth = engine_ok and button = True and config = EchoVerseConfig_init
            and tone = "str ''Neutral''" and voice = "str ''Allison''", OF h1 g1]
  from set_case h3 have a: "snd (rewrite_text config_set (str ''Once upon a time'') (str ''Neutral''))
       = Inr ?rw" by simp
  from init_case g2 h3
  have b: "snd (rewrite_text EchoVerseConfig_init (str ''Once upon a time'') (str ''Neutral''))
             = Inr (str ''Once upon a time'')
           \<and> GTTS (str ''Once upon a time'') (str ''en'') False \<in> set (fst ?run0)"
    by blast
  from h1 h2 h3 h4 h5 h6 g2 a b show ?thesis by simp
qed

theorem narration_with_default_credentials:
  "render_processing_section engine_ok True EchoVerseConfig_init
     (str ''Once upon a time'') (str ''Neutral'') (str ''Allison'') =
     ([StError (str ''Missing credentials: WATSON_API_KEY, WATSON_URL, WATSONX_PROJECT_ID''),
       StInfo (str ''Please set your IBM Watson credentials in the configuration section''),
       GTTS (str ''Once upon a time'') (str ''en'') False],
      Inr (Some (str ''Once upon a time''), Some (str ''/tmp/tmpk3x9.mp3'')))
   \<and> str ''Once upon a time'' \<noteq> []"
  by (simp add: eval_defs)

section \<open>Credentials, unknown tones and failures in the rewriter\<close>

text \<open>The credential check succeeds exactly when none of the three strings is empty.\<close>

lemma validate_credentials_ok_iff:
  "snd (validate_credentials config) \<longleftrightarrow>
     WATSON_API_KEY config \<noteq> [] \<and> WATSON_URL config \<noteq> [] \<and> WATSONX_PROJECT_ID config \<noteq> []"
  by (simp add: validate_credentials_def missing_credentials_def Let_def)

lemma validate_credentials_trace:
  "fst (validate_credentials config) =
     (if snd (validate_credentials config) then []
      else [StError (str ''Missing credentials: '' @
                     join (str '', '') (missing_credentials config)),
            StInfo (str ''Please set your IBM Watson credentials in the configuration section'')])"
  by (simp add: validate_credentials_def Let_def)

text \<open>
  Claim C5, as amended. When a credential is missing, \<open>rewrite_text\<close> shows the
  error naming the missing credentials and the hint, and returns the text as it is: the
  body of the \<open>try\<close> does not run, so the simulated rewrite is not applied. The
  pipeline goes on: for a text that is not blank \<open>render_processing_section\<close>
  returns that same text and calls the engine with it. The claim as written, that the
  simulated rewrite is applied without credentials, fails: with the credentials of
  \<open>__init__\<close> the text \<open>Hello\<close> comes back as \<open>Hello\<close>, while the simulated
  rewrite for the tone \<open>Neutral\<close> is a longer text.
\<close>

theorem missing_credentials_return_text_unchanged:
  assumes "WATSON_API_KEY config = [] \<or> WATSON_URL config = [] \<or> WATSONX_PROJECT_ID config = []"
  shows "rewrite_text config original tone =
           ([StError (str ''Missing credentials: '' @
                      join (str '', '') (missing_credentials config)),
             StInfo (str ''Please set your IBM Watson credentials in the configuration section'')],
            Inr original)
       \<and> rewrite_text_with body config original tone = rewrite_text config original tone
       \<and> (strip original \<noteq> [] \<longrightarrow>
            snd (render_processing_section synth True config original tone voice) =
              Inr (Some original, (case synth original (str ''en'') False of
                                 Inr name \<Rightarrow> Some name | Inl e \<Rightarrow> None)))"
proof -
  have bad: "\<not> snd (validate_credentials config)"
    using assms by (auto simp: validate_credentials_ok_iff)
  have w: "rewrite_text_with b config original tone =
           ([StError (str ''Missing credentials: '' @
                      join (str '', '') (missing_credentials config)),
             StInfo (str ''Please set your IBM Watson credentials in the configuration section'')],
            Inr original)" for b
    using bad validate_credentials_trace [of config]
    by (auto simp: rewrite_text_with_def split: prod.splits bool.splits)
  have r: "rewrite_text config original tone =
           ([StError (str ''Missing credentials: '' @
                      join (str '', '') (missing_credentials config)),
             StInfo (str ''Please set your IBM Watson credentials in the configuration section'')],
            Inr original)"
    using w [of simulate_rewrite] by (simp add: rewrite_text_def)
  have p: "strip original \<noteq> [] \<longrightarrow>
            snd (render_processing_section synth True config original tone voice) =
              Inr (Some original, (case synth original (str ''en'') False of
                                 Inr name \<Rightarrow> Some name | Inl e \<Rightarrow> None))"
    using render_processing_section_run [OF _ r, of synth voice] by simp
  from r w [of body] p show ?thesis by simp
qed

theorem missing_credentials_return_text_unchanged_witness:
  "WATSON_API_KEY EchoVerseConfig_init = []
   \<and> strip (str ''Hello'') \<noteq> []
   \<and> rewrite_text EchoVerseConfig_init (str ''Hello'') (str ''Suspenseful'') =
        ([StError (str ''Missing credentials: WATSON_API_KEY, WATSON_URL, WATSONX_PROJECT_ID''),
          StInfo (str ''Please set your IBM Watson credentials in the configuration section'')],
         Inr (str ''Hello''))
   \<and> snd (render_processing_section engine_ok True EchoVerseConfig_init
             (str ''Hello'') (str ''Suspenseful'') (str ''Lisa'')) =
        Inr (Some (str ''Hello''), Some (str ''/tmp/tmpk3x9.mp3''))"
proof -
  have k: "WATSON_API_KEY EchoVerseConfig_init = []" by (simp add: EchoVerseConfig_init_def)
  then have h: "WATSON_API_KEY EchoVerseConfig_init = [] \<or> WATSON_URL EchoVerseConfig_init = []
      \<or> WATSONX_PROJECT_ID EchoVerseConfig_init = []" by simp
  have s: "strip (str ''Hello'') \<noteq> []" by (simp add: eval_defs)
  have m: "str ''Missing credentials: '' @
             join (str '', '') (missing_credentials EchoVerseConfig_init)
           = str ''Missing credentials: WATSON_API_KEY, WATSON_URL, WATSONX_PROJECT_ID''"
    by (simp add: eval_defs)
  have e: "engine_ok (str ''Hello'') (str ''en'') False = Inr (str ''/tmp/tmpk3x9.mp3'')"
    by (simp add: engine_ok_def)
  from missing_credentials_return_text_unchanged
         [where config = EchoVerseConfig_init and original = "str ''Hello''"
            and tone = "str ''Suspenseful''" and synth = engine_ok and voice = "str ''Lisa''"
            and body = simulate_rewrite, OF h]
       k s m e
  show ?thesis by simp
qed

theorem missing_credentials_skip_simulated_rewrite:
  "snd (rewrite_text EchoVerseConfig_init (str ''Hello'') (str ''Neutral'')) = Inr (str ''Hello'')
   \<and> simulate_rewrite (str ''Hello'') (str ''Neutral'')
        = Inr (str ''In a clear and professional manner: Hello'')
   \<and> str ''Hello'' \<noteq> str ''In a clear and professional manner: Hello''"
  by (simp add: eval_defs)

text \<open>
  Claim C6, as amended. For a tone that is none of the three names, \<open>_simulate_rewrite\<close>
  and \<open>rewrite_text\<close> return the text as it is and raise nothing; for every tone,
  the three names included, they raise nothing. The claim as written, that an unknown
  tone fails with an error, does not hold: for the tone \<open>Angry\<close> the text
  \<open>Hello\<close> is returned and nothing is shown.
\<close>

theorem unknown_tone_returns_text_unchanged:
  "(tone \<notin> {str ''Neutral'', str ''Suspenseful'', str ''Inspiring''} \<longrightarrow>
      simulate_rewrite original tone = Inr original
      \<and> snd (rewrite_text config original tone) = Inr original)
   \<and> (\<exists>r. simulate_rewrite original tone = Inr r)
   \<and> (\<exists>r. snd (rewrite_text config original tone) = Inr r)"
  by (simp add: rewrite_text_cases simulate_rewrite_def)

theorem unknown_tone_returns_text_unchanged_witness:
  "str ''Angry'' \<notin> {str ''Neutral'', str ''Suspenseful'', str ''Inspiring''}
   \<and> simulate_rewrite (str ''Hello'') (str ''Angry'') = Inr (str ''Hello'')
   \<and> snd (rewrite_text config_set (str ''Hello'') (str ''Angry'')) = Inr (str ''Hello'')"
proof -
  have h: "str ''Angry'' \<notin> {str ''Neutral'', str ''Suspenseful'', str ''Inspiring''}"
    by (simp add: str_def)
  from unknown_tone_returns_text_unchanged
         [where tone = "str ''Angry''" and original = "str ''Hello''" and config = config_set] h
  show ?thesis by simp
qed

theorem unknown_tone_raises_nothing:
  "simulate_rewrite (str ''Hello'') (str ''Angry'') = Inr (str ''Hello'')
   \<and> rewrite_text config_set (str ''Hello'') (str ''Angry'') = ([], Inr (str ''Hello''))"
  by (simp add: eval_defs)

text \<open>
  Claim C10. \<open>rewrite_text\<close> always returns a string and never raises. This holds for
  whatever is called inside its \<open>try\<close>: when the credentials are set and that call
  raises, the error is shown and the original text is returned.
\<close>

theorem rewrite_text_never_raises:
  "(\<exists>es r. rewrite_text config original tone = (es, Inr r))
   \<and> (\<exists>es r. rewrite_text_with body config original tone = (es, Inr r))
   \<and> (snd (validate_credentials config) \<and> body original tone = Inl (Exception msg) \<longrightarrow>
        rewrite_text_with body config original tone =
          ([StError (str ''Error rewriting text: '' @ msg)], Inr original))"
proof -
  have a: "\<exists>es r. rewrite_text_with b config original tone = (es, Inr r)" for b
    by (rule rewrite_text_with_returns)
  have c: "snd (validate_credentials config) \<and> body original tone = Inl (Exception msg) \<longrightarrow>
        rewrite_text_with body config original tone =
          ([StError (str ''Error rewriting text: '' @ msg)], Inr original)"
    using validate_credentials_trace [of config]
    by (auto simp: rewrite_text_with_def split: prod.splits bool.splits)
  from a [of simulate_rewrite] a [of body] c show ?thesis
    unfolding rewrite_text_def by blast
qed

theorem rewrite_text_never_raises_witness:
  "snd (validate_credentials config_set)
   \<and> body_raising (str ''Hello'') (str ''Neutral'') = Inl (Exception (str ''backend unavailable''))
   \<and> rewrite_text_with body_raising config_set (str ''Hello'') (str ''Neutral'') =
        ([StError (str ''Error rewriting text: backend unavailable'')], Inr (str ''Hello''))"
proof -
  have v: "snd (validate_credentials config_set)" by (simp add: eval_defs)
  have b: "body_raising (str ''Hello'') (str ''Neutral'') = Inl (Exception (str ''backend unavailable''))"
    by (simp add: body_raising_def)
  have m: "str ''Error rewriting text: '' @ str ''backend unavailable''
           = str ''Error rewriting text: backend unavailable''"
    by (simp add: str_def)
  from rewrite_text_never_raises
         [where body = body_raising and config = config_set and original = "str ''Hello''"
            and tone = "str ''Neutral''" and msg = "str ''backend unavailable''"] v b m
  show ?thesis by simp
qed

section \<open>The statistics line\<close>

text \<open>
  \<open>split\<close> reads a word to its end, and closes it at a whitespace character.
\<close>

lemma split_from_word:
  "\<forall>c\<in>set w. \<not> isspace c \<Longrightarrow> split_from cur (w @ rest) = split_from (cur @ w) rest"
  by (induction w arbitrary: cur) auto

lemma split_from_space:
  "isspace c \<Longrightarrow> cur \<noteq> [] \<Longrightarrow> split_from cur (c # rest) = cur # split_from [] rest"
  by simp

lemma split_from_words:
  assumes "\<forall>c\<in>set w. \<not> isspace c" and "w \<noteq> []" and "isspace sp"
  shows "split_from [] (concat (replicate n (w @ [sp])) @ rest) = replicate n w @ split_from [] rest"
proof (induction n)
  case 0
  show ?case by simp
next
  case (Suc n)
  have "split_from [] (w @ sp # concat (replicate n (w @ [sp])) @ rest)
          = split_from w (sp # concat (replicate n (w @ [sp])) @ rest)"
    using split_from_word [OF assms(1), of "[]"] by simp
  also have "\<dots> = w # split_from [] (concat (replicate n (w @ [sp])) @ rest)"
    using assms(2,3) by simp
  finally show ?case using Suc.IH by simp
qed

text \<open>The tokens of \<open>split\<close> are not empty, hold no whitespace, and together are the
  characters of the text that are not whitespace, in order.\<close>

lemma split_from_tokens:
  "\<forall>c\<in>set cur. \<not> isspace c \<Longrightarrow> t \<in> set (split_from cur s) \<Longrightarrow>
     t \<noteq> [] \<and> (\<forall>c\<in>set t. \<not> isspace c)"
proof (induction s arbitrary: cur)
  case Nil
  then show ?case by (cases "cur = []") simp_all
next
  case (Cons c cs)
  show ?case
  proof (cases "isspace c")
    case True
    show ?thesis
    proof (cases "cur = []")
      case True
      with \<open>isspace c\<close> Cons.prems(2) have "t \<in> set (split_from [] cs)" by simp
      then show ?thesis using Cons.IH [of "[]"] by simp
    next
      case False
      with \<open>isspace c\<close> Cons.prems(2) have "t = cur \<or> t \<in> set (split_from [] cs)" by simp
      then show ?thesis
      proof
        assume "t = cur"
        with False Cons.prems(1) show ?thesis by simp
      next
        assume "t \<in> set (split_from [] cs)"
        then show ?thesis using Cons.IH [of "[]"] by simp
      qed
    qed
  next
    case False
    with Cons.prems(2) have "t \<in> set (split_from (cur @ [c]) cs)" by simp
    moreover have "\<forall>x\<in>set (cur @ [c]). \<not> isspace x" using False Cons.prems(1) by simp
    ultimately show ?thesis using Cons.IH [of "cur @ [c]"] by blast
  qed
qed

lemma split_from_concat:
  "concat (split_from cur s) = cur @ filter (\<lambda>c. \<not> isspace c) s"
  by (induction cur s rule: split_from.induct) auto

lemma split_tokens:
  "t \<in> set (split s) \<Longrightarrow> t \<noteq> [] \<and> (\<forall>c\<in>set t. \<not> isspace c)"
  using split_from_tokens [of "[]" t s] by (simp add: split_def)

lemma split_concat: "concat (split s) = filter (\<lambda>c. \<not> isspace c) s"
  by (simp add: split_def split_from_concat)

lemma sample_text_length: "length sample_text_1000 = 1000"
  by (simp add: sample_text_1000_def str_def length_concat sum_list_replicate)

lemma sample_text_words: "length (split sample_text_1000) = 150"
proof -
  have w1: "\<forall>c\<in>set (str ''stream''). \<not> isspace c" by (simp add: str_def isspace_def)
  have w2: "\<forall>c\<in>set (str ''audio''). \<not> isspace c" by (simp add: str_def isspace_def)
  have w3: "\<forall>c\<in>set (str ''speech''). \<not> isspace c" by (simp add: str_def isspace_def)
  have sp: "isspace 32" by (simp add: isspace_def)
  have e1: "str ''stream '' = str ''stream'' @ [32]" by (simp add: str_def)
  have e2: "str ''audio '' = str ''audio'' @ [32]" by (simp add: str_def)
  have n1: "str ''stream'' \<noteq> []" by (simp add: str_def)
  have n2: "str ''audio'' \<noteq> []" by (simp add: str_def)
  have n3: "str ''speech'' \<noteq> []" by (simp add: str_def)
  have last: "split_from [] (str ''speech'') = [str ''speech'']"
    using split_from_word [OF w3, of "[]" "[]"] n3 by simp
  have "split sample_text_1000 =
          replicate 100 (str ''stream'') @ replicate 49 (str ''audio'') @ [str ''speech'']"
    unfolding split_def sample_text_1000_def e1 e2
    by (simp only: split_from_words [OF w1 n1 sp] split_from_words [OF w2 n2 sp] last)
  then show ?thesis by simp
qed


text \<open>\<open>split\<close> returns as many tokens as the text has word starts.\<close>

lemma split_from_count:
  "(cur = [] \<longleftrightarrow> isspace x) \<Longrightarrow>
     length (split_from cur s) =
       (if cur = [] then 0 else 1) +
       length (filter (\<lambda>(p, c). isspace p \<and> \<not> isspace c) (zip (x # s) s))"
proof (induction s arbitrary: cur x)
  case Nil
  then show ?case by simp
next
  case (Cons c cs)
  show ?case
  proof (cases "isspace c")
    case True
    have "length (split_from [] cs) =
            length (filter (\<lambda>(p, c). isspace p \<and> \<not> isspace c) (zip (c # cs) cs))"
      using Cons.IH [of "[]" c] True by simp
    with True show ?thesis by simp
  next
    case False
    have "length (split_from (cur @ [c]) cs) =
            1 + length (filter (\<lambda>(p, c). isspace p \<and> \<not> isspace c) (zip (c # cs) cs))"
      using Cons.IH [of "cur @ [c]" c] False by simp
    with False Cons.prems show ?thesis by simp
  qed
qed

lemma split_token_count: "length (split S) = token_count S"
proof -
  have "isspace 32" by (simp add: isspace_def)
  then show ?thesis
    using split_from_count [of "[]" 32 S] by (simp add: split_def token_count_def)
qed

text \<open>\<open>str\<close> of a natural number is its decimal numeral.\<close>

lemma str_of_nat_decimal:
  "is_decimal (str_of_nat n) \<and> decimal_value (str_of_nat n) = n"
proof (induction n rule: str_of_nat.induct)
  case (1 n)
  show ?case
  proof (cases "n < 10")
    case True
    then show ?thesis
      by (subst (1 2) str_of_nat.simps) (simp add: is_decimal_def decimal_value_def)
  next
    case False
    with "1.IH" have ih: "is_decimal (str_of_nat (n div 10))"
      "decimal_value (str_of_nat (n div 10)) = n div 10" by simp_all
    have eq: "str_of_nat n = str_of_nat (n div 10) @ [48 + n mod 10]"
      using False by (subst str_of_nat.simps) simp
    have "is_decimal (str_of_nat n)"
      using ih(1) unfolding eq by (simp add: is_decimal_def)
    moreover have "decimal_value (str_of_nat n) = n"
      using ih(2) unfolding eq by (simp add: decimal_value_def)
    ultimately show ?thesis by simp
  qed
qed

lemma str_of_int_nat: "str_of_int (int n) = str_of_nat n"
  by (simp add: str_of_int_def)

lemma audio_statistics_eq:
  "audio_statistics S =
     128202 # str '' **Audio Statistics**: '' @
     str_of_nat (length S) @ str '' characters, ~'' @
     str_of_nat (token_count S) @ str '' words, ~'' @
     str_of_nat (length S div 200) @ str '' minutes estimated duration''"
proof -
  have "int (length S) div 200 = int (length S div 200)" by (simp add: zdiv_int)
  then show ?thesis
    by (simp add: audio_statistics_def str_of_int_nat split_token_count)
qed

lemma render_audio_section_statistics:
  "audio_file = Some f \<Longrightarrow> f \<noteq> [] \<Longrightarrow>
     StInfo (audio_statistics S) \<in> set (render_audio_section fs clicked now audio_file S)"
  by (simp add: render_audio_section_def)

text \<open>
  Claim C8, as amended. When an audio file was produced, \<open>render_audio_section\<close>
  shows the statistics of the narrated text \<open>S\<close> as three decimal numerals: the
  number of characters of \<open>S\<close>, the number of whitespace-separated words of \<open>S\<close>,
  and the minutes, which are the number of characters divided by 200 and rounded down.
  For a text of 1000 characters and 150 words the line reads 1000 characters, 150 words,
  5 minutes. The claim as written, with the minutes equal to the number of characters
  divided by 200, fails wherever that number is not a multiple of 200: for \<open>Hello\<close>
  the line shows 0 minutes.
\<close>

theorem audio_statistics_shown:
  assumes "audio_file = Some f" and "f \<noteq> []"
  shows "(\<exists>c w m.
            StInfo (128202 # str '' **Audio Statistics**: '' @ c @ str '' characters, ~'' @
                    w @ str '' words, ~'' @ m @ str '' minutes estimated duration'')
              \<in> set (render_audio_section fs clicked now audio_file S)
            \<and> is_decimal c \<and> decimal_value c = length S
            \<and> is_decimal w \<and> decimal_value w = token_count S
            \<and> is_decimal m \<and> int (decimal_value m) = \<lfloor>real (length S) / 200\<rfloor>)
       \<and> (length S = 1000 \<and> token_count S = 150 \<longrightarrow>
            StInfo (128202 # str '' **Audio Statistics**: 1000 characters, ~150 words, ~5 minutes estimated duration'')
              \<in> set (render_audio_section fs clicked now audio_file S))"
proof -
  have shown: "StInfo (audio_statistics S)
                 \<in> set (render_audio_section fs clicked now audio_file S)"
    using assms by (rule render_audio_section_statistics)
  have fl: "int (length S div 200) = \<lfloor>real (length S) / 200\<rfloor>"
    using floor_divide_of_nat_eq [of "length S" 200, where ?'a = real] by simp
  have general: "\<exists>c w m.
            StInfo (128202 # str '' **Audio Statistics**: '' @ c @ str '' characters, ~'' @
                    w @ str '' words, ~'' @ m @ str '' minutes estimated duration'')
              \<in> set (render_audio_section fs clicked now audio_file S)
            \<and> is_decimal c \<and> decimal_value c = length S
            \<and> is_decimal w \<and> decimal_value w = token_count S
            \<and> is_decimal m \<and> int (decimal_value m) = \<lfloor>real (length S) / 200\<rfloor>"
    apply (rule exI [of _ "str_of_nat (length S)"])
    apply (rule exI [of _ "str_of_nat (token_count S)"])
    apply (rule exI [of _ "str_of_nat (length S div 200)"])
    using shown fl by (simp add: audio_statistics_eq str_of_nat_decimal)
  have particular: "length S = 1000 \<and> token_count S = 150 \<longrightarrow>
            StInfo (128202 # str '' **Audio Statistics**: 1000 characters, ~150 words, ~5 minutes estimated duration'')
              \<in> set (render_audio_section fs clicked now audio_file S)"
  proof
    assume a: "length S = 1000 \<and> token_count S = 150"
    have "audio_statistics S = 128202 # str '' **Audio Statistics**: '' @
                 str_of_nat 1000 @ str '' characters, ~'' @
                 str_of_nat 150 @ str '' words, ~'' @
                 str_of_nat 5 @ str '' minutes estimated duration''"
      using a by (simp add: audio_statistics_eq)
    also have "\<dots> = 128202 # str '' **Audio Statistics**: 1000 characters, ~150 words, ~5 minutes estimated duration''"
      by (simp add: str_of_nat.simps str_def)
    finally show "StInfo (128202 # str '' **Audio Statistics**: 1000 characters, ~150 words, ~5 minutes estimated duration'')
              \<in> set (render_audio_section fs clicked now audio_file S)"
      using shown by simp
  qed
  from general particular show ?thesis by (rule conjI)
qed

theorem audio_statistics_shown_witness:
  "length sample_text_1000 = 1000
   \<and> token_count sample_text_1000 = 150
   \<and> StInfo (128202 # str '' **Audio Statistics**: 1000 characters, ~150 words, ~5 minutes estimated duration'')
        \<in> set (render_audio_section files_sample False 1700000000
                  (Some (str ''/tmp/tmpk3x9.mp3'')) sample_text_1000)
   \<and> is_decimal (str ''1000'') \<and> decimal_value (str ''1000'') = 1000
   \<and> is_decimal (str ''150'') \<and> decimal_value (str ''150'') = 150
   \<and> is_decimal (str ''5'') \<and> int (decimal_value (str ''5'')) = \<lfloor>(1000::real) / 200\<rfloor>"
proof -
  have n: "str ''/tmp/tmpk3x9.mp3'' \<noteq> []" by (simp add: str_def)
  have tc: "token_count sample_text_1000 = 150"
    using sample_text_words by (simp add: split_token_count)
  note t = audio_statistics_shown
         [where audio_file = "Some (str ''/tmp/tmpk3x9.mp3'')" and f = "str ''/tmp/tmpk3x9.mp3''"
            and S = sample_text_1000 and fs = files_sample and clicked = False
            and now = 1700000000, OF refl n]
  from t sample_text_length tc
  have line: "StInfo (128202 # str '' **Audio Statistics**: 1000 characters, ~150 words, ~5 minutes estimated duration'')
        \<in> set (render_audio_section files_sample False 1700000000
                  (Some (str ''/tmp/tmpk3x9.mp3'')) sample_text_1000)"
    by blast
  have d: "is_decimal (str ''1000'') \<and> decimal_value (str ''1000'') = 1000
   \<and> is_decimal (str ''150'') \<and> decimal_value (str ''150'') = 150
   \<and> is_decimal (str ''5'') \<and> int (decimal_value (str ''5'')) = \<lfloor>(1000::real) / 200\<rfloor>"
    by (simp add: is_decimal_def decimal_value_def str_def)
  from sample_text_length tc line d show ?thesis by simp
qed

theorem statistics_minutes_are_rounded_down:
  "StInfo (128202 # str '' **Audio Statistics**: 5 characters, ~1 words, ~0 minutes estimated duration'')
     \<in> set (render_audio_section files_sample False 1700000000
               (Some (str ''/tmp/tmpk3x9.mp3'')) (str ''Hello''))
   \<and> length (str ''Hello'') = 5
   \<and> real (decimal_value (str ''0'')) \<noteq> real (length (str ''Hello'')) / 200"
proof -
  have "audio_statistics (str ''Hello'') =
          128202 # str '' **Audio Statistics**: 5 characters, ~1 words, ~0 minutes estimated duration''"
    by (simp add: eval_defs)
  moreover have "str ''/tmp/tmpk3x9.mp3'' \<noteq> []" by (simp add: str_def)
  ultimately have "StInfo (128202 # str '' **Audio Statistics**: 5 characters, ~1 words, ~0 minutes estimated duration'')
     \<in> set (render_audio_section files_sample False 1700000000
               (Some (str ''/tmp/tmpk3x9.mp3'')) (str ''Hello''))"
    using render_audio_section_statistics
            [of "Some (str ''/tmp/tmpk3x9.mp3'')" "str ''/tmp/tmpk3x9.mp3''" "str ''Hello''"
                files_sample False 1700000000]
    by simp
  moreover have "length (str ''Hello'') = 5" by (simp add: str_def)
  moreover have "real (decimal_value (str ''0'')) \<noteq> real (length (str ''Hello'')) / 200"
    by (simp add: decimal_value_def str_def)
  ultimately show ?thesis by simp
qed

section \<open>Voices and the end-to-end example\<close>



lemma sublist_after_prefix: "sublist b (a @ b)"
  unfolding sublist_def by (rule exI [of _ a], rule exI [of _ "[]"]) simp

text \<open>
  Claim C7, as amended. With all three credentials set and an engine that succeeds,
  \<open>render_processing_section\<close> for \<open>Hello world\<close>, \<open>Neutral\<close>, \<open>Lisa\<close> returns
  the text that starts with the \<open>Neutral\<close> prefix and ends with \<open>Hello world\<close>,
  and the name of the audio file; \<open>render_audio_section\<close> then offers that file for
  playing and for download with the type \<open>audio/mp3\<close>. The claim as written, without
  the condition on the credentials, fails: with the credentials of \<open>__init__\<close> the
  text returned is \<open>Hello world\<close> itself, which does not start with the prefix.
\<close>

theorem hello_world_neutral_lisa:
  assumes "WATSON_API_KEY config \<noteq> []" and "WATSON_URL config \<noteq> []"
    and "WATSONX_PROJECT_ID config \<noteq> []"
    and "synth (str ''In a clear and professional manner: '' @ str ''Hello world'')
           (str ''en'') False = Inr name"
    and "name \<noteq> []" and "fs name = Some content"
  shows "render_processing_section synth True config
           (str ''Hello world'') (str ''Neutral'') (str ''Lisa'') =
           ([GTTS (str ''In a clear and professional manner: '' @ str ''Hello world'')
               (str ''en'') False],
            Inr (Some (str ''In a clear and professional manner: '' @ str ''Hello world''),
                 Some name))
       \<and> prefix (str ''In a clear and professional manner: '')
             (str ''In a clear and professional manner: '' @ str ''Hello world'')
       \<and> sublist (str ''Hello world'')
             (str ''In a clear and professional manner: '' @ str ''Hello world'')
       \<and> StAudio content (str ''audio/mp3'')
             \<in> set (render_audio_section fs clicked now (Some name)
                      (str ''In a clear and professional manner: '' @ str ''Hello world''))
       \<and> StDownloadButton (128229 # str '' Download Audio'') content
             (str ''audiobook_'' @ str_of_int now @ str ''.mp3'') (str ''audio/mp3'')
             \<in> set (render_audio_section fs clicked now (Some name)
                      (str ''In a clear and professional manner: '' @ str ''Hello world''))"
proof -
  let ?rw = "str ''In a clear and professional manner: '' @ str ''Hello world''"
  have ok: "snd (validate_credentials config)"
    using assms(1-3) by (simp add: validate_credentials_ok_iff)
  then have es: "fst (validate_credentials config) = []"
    by (simp add: validate_credentials_trace)
  have rw: "rewrite_text config (str ''Hello world'') (str ''Neutral'') = ([], Inr ?rw)"
    using ok es
    by (auto simp: rewrite_text_def rewrite_text_with_def simulate_rewrite_def
             split: prod.splits bool.splits)
  have ne: "strip (str ''Hello world'') \<noteq> []" by (simp add: strip_def str_def isspace_def)
  have run: "render_processing_section synth True config
           (str ''Hello world'') (str ''Neutral'') (str ''Lisa'') =
           ([GTTS ?rw (str ''en'') False], Inr (Some ?rw, Some name))"
    using render_processing_section_run [OF ne rw, of synth "str ''Lisa''"] assms(4)
    by (simp add: generate_audio_eq)
  have p: "prefix (str ''In a clear and professional manner: '') ?rw" by simp
  have s: "sublist (str ''Hello world'') ?rw" by (rule sublist_after_prefix)
  have a: "StAudio content (str ''audio/mp3'')
             \<in> set (render_audio_section fs clicked now (Some name) ?rw)"
    using assms(5,6) by (simp add: render_audio_section_def create_audio_player_def)
  have d: "StDownloadButton (128229 # str '' Download Audio'') content
             (str ''audiobook_'' @ str_of_int now @ str ''.mp3'') (str ''audio/mp3'')
             \<in> set (render_audio_section fs clicked now (Some name) ?rw)"
    using assms(5,6) by (simp add: render_audio_section_def create_download_button_def)
  from run p s a d show ?thesis by blast
qed

theorem hello_world_neutral_lisa_witness:
  "WATSON_API_KEY config_set \<noteq> [] \<and> WATSON_URL config_set \<noteq> []
   \<and> WATSONX_PROJECT_ID config_set \<noteq> []
   \<and> engine_ok (str ''In a clear and professional manner: Hello world'') (str ''en'') False
        = Inr (str ''/tmp/tmpk3x9.mp3'')
   \<and> str ''/tmp/tmpk3x9.mp3'' \<noteq> []
   \<and> files_sample (str ''/tmp/tmpk3x9.mp3'') = Some [73, 68, 51]
   \<and> render_processing_section engine_ok True config_set
         (str ''Hello world'') (str ''Neutral'') (str ''Lisa'') =
         ([GTTS (str ''In a clear and professional manner: Hello world'') (str ''en'') False],
          Inr (Some (str ''In a clear and professional manner: Hello world''),
               Some (str ''/tmp/tmpk3x9.mp3'')))
   \<and> StAudio [73, 68, 51] (str ''audio/mp3'')
         \<in> set (render_audio_section files_sample False 1700000000
                  (Some (str ''/tmp/tmpk3x9.mp3''))
                  (str ''In a clear and professional manner: Hello world''))
   \<and> StDownloadButton (128229 # str '' Download Audio'') [73, 68, 51]
         (str ''audiobook_1700000000.mp3'') (str ''audio/mp3'')
         \<in> set (render_audio_section files_sample False 1700000000
                  (Some (str ''/tmp/tmpk3x9.mp3''))
                  (str ''In a clear and professional manner: Hello world''))"
proof -
  have c1: "WATSON_API_KEY config_set \<noteq> []" by (simp add: config_set_def str_def)
  have c2: "WATSON_URL config_set \<noteq> []" by (simp add: config_set_def str_def)
  have c3: "WATSONX_PROJECT_ID config_set \<noteq> []" by (simp add: config_set_def str_def)
  have j: "str ''In a clear and professional manner: '' @ str ''Hello world''
           = str ''In a clear and professional manner: Hello world''"
    by (simp add: str_def)
  have e: "engine_ok (str ''In a clear and professional manner: '' @ str ''Hello world'')
             (str ''en'') False = Inr (str ''/tmp/tmpk3x9.mp3'')"
    by (simp add: engine_ok_def)
  have n: "str ''/tmp/tmpk3x9.mp3'' \<noteq> []" by (simp add: str_def)
  have f: "files_sample (str ''/tmp/tmpk3x9.mp3'') = Some [73, 68, 51]"
    by (simp add: files_sample_def)
  have k: "str ''audiobook_'' @ str_of_int 1700000000 @ str ''.mp3''
           = str ''audiobook_1700000000.mp3''"
    by (simp add: str_of_int_def str_of_nat.simps str_def)
  have e': "engine_ok (str ''In a clear and professional manner: Hello world'')
             (str ''en'') False = Inr (str ''/tmp/tmpk3x9.mp3'')"
    by (simp add: engine_ok_def)
  from hello_world_neutral_lisa
         [where config = config_set and synth = engine_ok
            and name = "str ''/tmp/tmpk3x9.mp3''" and fs = files_sample
            and content = "[73, 68, 51]" and clicked = False and now = 1700000000,
          OF c1 c2 c3 e n f]
       c1 c2 c3 e' n f
  show ?thesis unfolding j k by simp
qed

theorem hello_world_default_credentials:
  "render_processing_section engine_ok True EchoVerseConfig_init
     (str ''Hello world'') (str ''Neutral'') (str ''Lisa'') =
     ([StError (str ''Missing credentials: WATSON_API_KEY, WATSON_URL, WATSONX_PROJECT_ID''),
       StInfo (str ''Please set your IBM Watson credentials in the configuration section''),
       GTTS (str ''Hello world'') (str ''en'') False],
      Inr (Some (str ''Hello world''), Some (str ''/tmp/tmpk3x9.mp3'')))
   \<and> \<not> prefix (str ''In a clear and professional manner: '') (str ''Hello world'')"
  by (simp add: eval_defs)

end
